theory Spec2Isabelle
  imports Main
begin

section \<open>Python values and built-ins used by the retail assistant\<close>

text \<open>
  The functions verified here are the helper modules that the notebook
  \<^verbatim>\<open>03-creating-llm-functions.ipynb\<close> writes to \<^verbatim>\<open>util/\<close>:
  \<^verbatim>\<open>getasinlist.py\<close>, \<^verbatim>\<open>imagehelpers.py\<close>, \<^verbatim>\<open>pickimg.py\<close>, \<^verbatim>\<open>refinequery.py\<close> and
  \<^verbatim>\<open>getinfo.py\<close>.

  Python strings are modelled as \<^typ>\<open>string\<close>, one \<^typ>\<open>char\<close> per character: a
  \<^typ>\<open>char\<close> is a code point from \<open>U+0000\<close> to \<open>U+00FF\<close>. The identifier handed
  to the catalog lookup is the exception: what happens to it depends on the
  class of each of its characters, so it is a list of arbitrary Unicode code
  points (see the section on \<^verbatim>\<open>util/getinfo.py\<close>). An exception is a value
  \<open>Inl e\<close> of the result type \<open>py_error + 'a\<close>; Python's \<^verbatim>\<open>None\<close> is \<open>None\<close> of an
  option type.
\<close>

datatype py_error =
    IndexError
  | TypeError
  | RequestError      \<comment> \<open>an exception of \<^verbatim>\<open>requests.get\<close>\<close>
  | ClientError       \<comment> \<open>an exception of the Bedrock client or of reading its response\<close>
  | ValueError

text \<open>\<^verbatim>\<open>xs[i]\<close>: a negative index counts from the end, anything out of range raises.\<close>

definition py_index :: "'a list \<Rightarrow> int \<Rightarrow> py_error + 'a" where
  "py_index xs i =
     (if 0 \<le> i \<and> i < int (length xs) then Inr (xs ! nat i)
      else if i < 0 \<and> 0 \<le> int (length xs) + i then Inr (xs ! nat (int (length xs) + i))
      else Inl IndexError)"

text \<open>\<^verbatim>\<open>s.split(sep)\<close> for a one-character separator: never an empty list.\<close>

fun py_split :: "char \<Rightarrow> string \<Rightarrow> string list" where
  "py_split sep [] = [[]]"
| "py_split sep (c # cs) =
     (if c = sep then [] # py_split sep cs
      else (case py_split sep cs of
              [] \<Rightarrow> [[c]]
            | w # ws \<Rightarrow> (c # w) # ws))"

text \<open>\<^verbatim>\<open>s.strip(chars)\<close>: drops the characters of \<open>chars\<close> from both ends.\<close>

definition py_lstrip :: "string \<Rightarrow> string \<Rightarrow> string" where
  "py_lstrip chars s = dropWhile (\<lambda>c. c \<in> set chars) s"

definition py_rstrip :: "string \<Rightarrow> string \<Rightarrow> string" where
  "py_rstrip chars s = rev (dropWhile (\<lambda>c. c \<in> set chars) (rev s))"

definition py_strip :: "string \<Rightarrow> string \<Rightarrow> string" where
  "py_strip chars s = py_rstrip chars (py_lstrip chars s)"

text \<open>
  The white space removed by \<^verbatim>\<open>s.strip()\<close> without an argument, that is the
  characters for which \<^verbatim>\<open>str.isspace\<close> holds: space, tab, line feed, vertical
  tab, form feed, carriage return, the separators \<open>U+001C\<close> to \<open>U+001F\<close>, next
  line \<open>U+0085\<close> and no-break space \<open>U+00A0\<close>.
\<close>

definition py_whitespace :: string where
  "py_whitespace =
     [CHR 0x20, CHR 0x09, CHR 0x0A, CHR 0x0B, CHR 0x0C, CHR 0x0D,
      CHR 0x1C, CHR 0x1D, CHR 0x1E, CHR 0x1F, CHR 0x85, CHR 0xA0]"

text \<open>\<^verbatim>\<open>s.startswith(p)\<close> and \<^verbatim>\<open>s.replace(old, '')\<close> for a non-empty \<open>old\<close>.\<close>

fun startswith :: "string \<Rightarrow> string \<Rightarrow> bool" where
  "startswith s [] = True"
| "startswith [] (p # ps) = False"
| "startswith (c # cs) (p # ps) = (c = p \<and> startswith cs ps)"

fun py_remove_all :: "string \<Rightarrow> nat \<Rightarrow> string \<Rightarrow> string" where
  "py_remove_all old skip [] = []"
| "py_remove_all old skip (c # cs) =
     (if 0 < skip then py_remove_all old (skip - 1) cs
      else if old \<noteq> [] \<and> startswith (c # cs) old
           then py_remove_all old (length old - 1) cs
      else c # py_remove_all old 0 cs)"


section \<open>The identifier extractor: \<^verbatim>\<open>util/getasinlist.py\<close>\<close>

text \<open>
  One hit of the knowledge base's Retrieve call, with the fields the code
  reads: \<^verbatim>\<open>search_item['location']['s3Location']['uri']\<close>. The relevance score
  of a hit is never read.
\<close>

record s3_location =
  uri :: string

record location =
  s3Location :: s3_location

record search_item =
  content_text :: string
  location :: location

text \<open>
  What \<^verbatim>\<open>get_asin_list\<close> may be handed: the function inspects the run-time
  type of its argument, so the argument is a tagged value. \<open>SearchDict\<close> is a
  single retrieval result that is not wrapped in a list.
\<close>

datatype search_output =
    SearchNone
  | SearchList "search_item list"
  | SearchStr string
  | SearchDict search_item

text \<open>\<^verbatim>\<open>uri.split('/')[-1].split('.')[0]\<close>\<close>

definition asin_of_uri :: "string \<Rightarrow> py_error + string" where
  "asin_of_uri u =
     (case py_index (py_split CHR ''/'' u) (- 1) of
        Inl e \<Rightarrow> Inl e
      | Inr name \<Rightarrow> py_index (py_split CHR ''.'' name) 0)"

definition asin_of_item :: "search_item \<Rightarrow> py_error + string" where
  "asin_of_item item = asin_of_uri (uri (s3Location (location item)))"

text \<open>The \<^verbatim>\<open>for\<close> loop of the list branch; \<open>asin_list\<close> is the list appended to.\<close>

fun asin_loop :: "search_item list \<Rightarrow> string list \<Rightarrow> py_error + string list" where
  "asin_loop [] asin_list = Inr asin_list"
| "asin_loop (item # rest) asin_list =
     (case asin_of_item item of
        Inl e \<Rightarrow> Inl e
      | Inr a \<Rightarrow> asin_loop rest (asin_list @ [a]))"

text \<open>
  The three branches of \<^verbatim>\<open>get_asin_list\<close>. The \<^verbatim>\<open>elif type(search_list) == str\<close>
  branch subscripts a string with the key \<^verbatim>\<open>'location'\<close>, which raises
  \<^verbatim>\<open>TypeError\<close> before anything else happens; every other value, a single
  result object included, reaches \<^verbatim>\<open>else: return None\<close>.
\<close>

fun get_asin_list :: "search_output \<Rightarrow> py_error + string list option" where
  "get_asin_list (SearchList search_list) =
     (case asin_loop search_list [] of
        Inl e \<Rightarrow> Inl e
      | Inr asin_list \<Rightarrow> Inr (Some asin_list))"
| "get_asin_list (SearchStr s) = Inl TypeError"
| "get_asin_list _ = Inr None"

text \<open>
  The reading of the design document, for comparison: the last path component
  of a URI, and a file name without its last extension.
\<close>

definition uri_basename :: "string \<Rightarrow> string" where
  "uri_basename u = rev (takeWhile (\<lambda>c. c \<noteq> CHR ''/'') (rev u))"

definition strip_last_extension :: "string \<Rightarrow> string" where
  "strip_last_extension name =
     (if CHR ''.'' \<in> set name
      then rev (tl (dropWhile (\<lambda>c. c \<noteq> CHR ''.'') (rev name)))
      else name)"

definition filename_stem :: "string \<Rightarrow> string" where
  "filename_stem u = strip_last_extension (uri_basename u)"

definition item_at :: "string \<Rightarrow> search_item" where
  "item_at u = \<lparr>content_text = [], location = \<lparr>s3Location = \<lparr>uri = u\<rparr>\<rparr>\<rparr>"


section \<open>The outside world\<close>

text \<open>
  A request to the language model, as \<^verbatim>\<open>json.dumps\<close> assembles it: the
  system prompt, the token budget and the content blocks of the single user
  message. The temperature is always 0.
\<close>

datatype content_block =
    TextBlock string
  | ImageBlock string string   \<comment> \<open>media type, base64 data\<close>

record request =
  model_id :: string
  max_tokens :: nat
  system :: string
  content :: "content_block list"

text \<open>
  A value \<^verbatim>\<open>ast.literal_eval\<close> can return, as far as \<^verbatim>\<open>isinstance(answer, int)\<close>
  tells values apart. In Python \<^verbatim>\<open>bool\<close> is a subclass of \<^verbatim>\<open>int\<close>.
\<close>

datatype py_obj =
    IntObj int
  | BoolObj bool
  | StrObj string
  | OtherObj

text \<open>
  Everything the functions call outside this repository. Each field answers
  the same way every time it is asked within one run.
  \<^item> \<open>open_image url\<close>: \<^verbatim>\<open>Image.open(requests.get(url, stream=True).raw)\<close>;
  \<^item> \<open>get_content url\<close>: \<^verbatim>\<open>requests.get(url).content\<close>;
  \<^item> \<open>invoke_model req\<close>: \<^verbatim>\<open>bedrock.invoke_model\<close> followed by reading
    \<^verbatim>\<open>['content'][0]['text']\<close> from the decoded response body;
  \<^item> \<open>literal_eval s\<close>: \<^verbatim>\<open>ast.literal_eval(s)\<close>.
\<close>

record env =
  open_image :: "string \<Rightarrow> py_error + unit"
  get_content :: "string \<Rightarrow> py_error + string"
  invoke_model :: "request \<Rightarrow> py_error + string"
  literal_eval :: "string \<Rightarrow> py_error + py_obj"


section \<open>Image helpers: \<^verbatim>\<open>util/imagehelpers.py\<close>\<close>

text \<open>
  The loop of \<^verbatim>\<open>filter_image_url\<close>. The bare \<^verbatim>\<open>except: pass\<close> swallows every
  exception of the \<^verbatim>\<open>try\<close> body, so the loop itself cannot fail.
\<close>

fun filter_loop :: "env \<Rightarrow> string list \<Rightarrow> string list \<Rightarrow> string list" where
  "filter_loop e [] images = images"
| "filter_loop e (url # rest) images =
     (case open_image e url of
        Inr opened \<Rightarrow> filter_loop e rest (images @ [url])
      | Inl err \<Rightarrow> filter_loop e rest images)"

definition filter_image_url :: "env \<Rightarrow> string list \<Rightarrow> string list option" where
  "filter_image_url e img_list =
     (let images = filter_loop e img_list []
      in if length images = 0 then None else Some images)"

text \<open>The URLs for which the \<^verbatim>\<open>try\<close> body of the loop runs to its end.\<close>

definition fetch_ok :: "env \<Rightarrow> string \<Rightarrow> bool" where
  "fetch_ok e url = (case open_image e url of Inl err \<Rightarrow> False | Inr opened \<Rightarrow> True)"

definition url_image_processing :: "env \<Rightarrow> string \<Rightarrow> py_error + string" where
  "url_image_processing e imgurl = get_content e imgurl"

text \<open>\<^verbatim>\<open>base64.b64encode\<close> with the standard alphabet and \<^verbatim>\<open>=\<close> padding.\<close>

definition b64_alphabet :: string where
  "b64_alphabet =
     ''ABCDEFGHIJKLMNOPQRSTUVWXYZabcdefghijklmnopqrstuvwxyz0123456789+/''"

definition b64_digit :: "nat \<Rightarrow> char" where
  "b64_digit k = b64_alphabet ! (k mod 64)"

fun b64_groups :: "nat list \<Rightarrow> string" where
  "b64_groups [] = []"
| "b64_groups [a] =
     (let n = a * 65536
      in [b64_digit (n div 262144), b64_digit (n div 4096), CHR ''='', CHR ''=''])"
| "b64_groups [a, b] =
     (let n = a * 65536 + b * 256
      in [b64_digit (n div 262144), b64_digit (n div 4096), b64_digit (n div 64),
          CHR ''=''])"
| "b64_groups (a # b # c # rest) =
     (let n = a * 65536 + b * 256 + c
      in [b64_digit (n div 262144), b64_digit (n div 4096), b64_digit (n div 64),
          b64_digit n] @ b64_groups rest)"

definition get_base64_from_bytes :: "string \<Rightarrow> string" where
  "get_base64_from_bytes image_bytes = b64_groups (map of_char image_bytes)"


section \<open>The image picker: \<^verbatim>\<open>util/pickimg.py\<close>\<close>

definition claude_model_id :: string where
  "claude_model_id = ''anthropic.claude-3-sonnet-20240229-v1:0''"

definition pick_system_prompt :: string where
  "pick_system_prompt =
     [CHR 0x0A] @
     ''    Based on the user's text and images, select and output the identifier for the image that best matches the text and is most visually appealing to shoppers.'' @
     [CHR 0x0A] @
     ''    Please output only the image number enclosed in a python array and nothing else.''"

text \<open>
  The loop that fetches and encodes every surviving image. Nothing catches an
  exception of \<^verbatim>\<open>url_image_processing\<close> here: it ends the call.
\<close>

fun encode_loop :: "env \<Rightarrow> string list \<Rightarrow> content_block list \<Rightarrow> py_error + content_block list" where
  "encode_loop e [] blocks = Inr blocks"
| "encode_loop e (img # rest) blocks =
     (case url_image_processing e img of
        Inl err \<Rightarrow> Inl err
      | Inr image_bytes \<Rightarrow>
          encode_loop e rest
            (blocks @ [ImageBlock ''image/jpeg'' (get_base64_from_bytes image_bytes)]))"

definition pick_request :: "content_block list \<Rightarrow> request" where
  "pick_request blocks =
     \<lparr>model_id = claude_model_id, max_tokens = 10,
      system = pick_system_prompt, content = blocks\<rparr>"

text \<open>
  \<^verbatim>\<open>try: answer = ast.literal_eval(answer.strip('[]')) except: pass\<close>: when the
  evaluation raises, \<open>answer\<close> stays the response string.
\<close>

definition parse_answer :: "env \<Rightarrow> string \<Rightarrow> py_obj" where
  "parse_answer e answer =
     (case literal_eval e (py_strip ''[]'' answer) of
        Inl err \<Rightarrow> StrObj answer
      | Inr v \<Rightarrow> v)"

text \<open>\<^verbatim>\<open>isinstance(answer, int)\<close>, with the integer the value stands for.\<close>

fun as_int :: "py_obj \<Rightarrow> int option" where
  "as_int (IntObj i) = Some i"
| "as_int (BoolObj b) = Some (if b then 1 else 0)"
| "as_int _ = None"

text \<open>
  The final test and the indexing:
  \<^verbatim>\<open>if isinstance(answer, int) and answer < len(img_list): return img_list[answer-1]\<close>.
\<close>

definition pick_answer :: "py_obj \<Rightarrow> string list \<Rightarrow> py_error + string option" where
  "pick_answer answer img_list =
     (case as_int answer of
        None \<Rightarrow> Inr None
      | Some i \<Rightarrow>
          if i < int (length img_list)
          then (case py_index img_list (i - 1) of
                  Inl err \<Rightarrow> Inl err
                | Inr url \<Rightarrow> Inr (Some url))
          else Inr None)"

definition pick_img :: "env \<Rightarrow> string \<Rightarrow> string list \<Rightarrow> py_error + string option" where
  "pick_img e text_input img_list =
     (case filter_image_url e img_list of
        None \<Rightarrow> Inr None
      | Some imgs \<Rightarrow>
          (case encode_loop e imgs [TextBlock text_input] of
             Inl err \<Rightarrow> Inl err
           | Inr blocks \<Rightarrow>
               (case invoke_model e (pick_request blocks) of
                  Inl err \<Rightarrow> Inl err
                | Inr answer \<Rightarrow> pick_answer (parse_answer e answer) imgs)))"


section \<open>The query refiner: \<^verbatim>\<open>util/refinequery.py\<close>\<close>

text \<open>
  The previously selected product, a dictionary with the keys \<^verbatim>\<open>asin\<close>,
  \<^verbatim>\<open>title\<close> and \<^verbatim>\<open>image\<close>.
\<close>

record product =
  asin :: string
  title :: string
  image_url :: string

definition refine_system_prompt :: string where
  "refine_system_prompt =
     [CHR 0x0A] @
     ''    Your task is to help the user find fashion apparel that they like.'' @
     [CHR 0x0A] @
     ''    Please only construct and output a descriptive text search query optimized for search with pgvector. Do not output anything else.'' @
     [CHR 0x0A] @
     ''    Be as descriptive as reasonable and use information from the user input to identify features like age group, gender, color, material etc to help find fashion apparel. '' @
     [CHR 0x0A] @
     ''    Do not assume or hallucinate.'' @
     [CHR 0x0A] @
     ''    Always refine the search query by using the CURRENT USER QUERY to update your output, factoring in PAST USER QUERY and IMAGE.''"

text \<open>
  \<^verbatim>\<open>for i, query in enumerate(query_history)\<close> with \<^verbatim>\<open>if i==3: break\<close> after the
  append: at most the first four past queries are sent.
\<close>

fun history_loop :: "nat \<Rightarrow> string list \<Rightarrow> content_block list \<Rightarrow> content_block list" where
  "history_loop i [] blocks = blocks"
| "history_loop i (query # rest) blocks =
     (let blocks' = blocks @ [TextBlock (''PAST USER QUERY: '' @ query)]
      in if i = 3 then blocks' else history_loop (i + 1) rest blocks')"

text \<open>
  \<^verbatim>\<open>if query_history:\<close> holds for a non-empty list; \<^verbatim>\<open>None\<close> and the empty list
  are both false.
\<close>

fun truthy :: "string list option \<Rightarrow> bool" where
  "truthy None = False"
| "truthy (Some h) = (h \<noteq> [])"

definition build_content ::
  "env \<Rightarrow> string \<Rightarrow> string list option \<Rightarrow> product option \<Rightarrow> py_error + content_block list" where
  "build_content e input_text query_history product_arg =
     (let blocks = [TextBlock (''CURRENT USER QUERY: '' @ input_text)];
          blocks = (case query_history of
                      None \<Rightarrow> blocks
                    | Some h \<Rightarrow> history_loop 0 h blocks)
      in case product_arg of
           None \<Rightarrow> Inr blocks
         | Some p \<Rightarrow>
             (case url_image_processing e (image_url p) of
                Inl err \<Rightarrow> Inl err
              | Inr image_bytes \<Rightarrow>
                  Inr (blocks @
                       [TextBlock (''IMAGE title: '' @ title p),
                        ImageBlock ''image/jpeg'' (get_base64_from_bytes image_bytes)])))"

definition refine_request :: "content_block list \<Rightarrow> request" where
  "refine_request blocks =
     \<lparr>model_id = claude_model_id, max_tokens = 4000,
      system = refine_system_prompt, content = blocks\<rparr>"

text \<open>
  \<^verbatim>\<open>logging.getLevelName(log_level)\<close> followed by \<^verbatim>\<open>setLevel\<close>: the numeric level
  of a registered level name; \<^verbatim>\<open>setLevel\<close> raises \<^verbatim>\<open>ValueError\<close> for any other
  name.
\<close>

definition level_of_name :: "string \<Rightarrow> nat option" where
  "level_of_name name =
     (if name = ''CRITICAL'' \<or> name = ''FATAL'' then Some 50
      else if name = ''ERROR'' then Some 40
      else if name = ''WARNING'' \<or> name = ''WARN'' then Some 30
      else if name = ''INFO'' then Some 20
      else if name = ''DEBUG'' then Some 10
      else if name = ''NOTSET'' then Some 0
      else None)"

text \<open>
  \<^verbatim>\<open>re.sub('<.*?>', '', text)\<close>: at a \<^verbatim>\<open><\<close>, the shortest match runs to the next
  \<^verbatim>\<open>>\<close> provided no line feed comes first (\<^verbatim>\<open>.\<close> does not match a line feed).
  \<open>tag_close cs\<close> is the number of characters before that \<^verbatim>\<open>>\<close>; \<open>skip\<close>
  counts the characters of a match still to be dropped.
\<close>

fun tag_close :: "string \<Rightarrow> nat option" where
  "tag_close [] = None"
| "tag_close (c # cs) =
     (if c = CHR ''>'' then Some 0
      else if c = CHR 0x0A then None
      else map_option Suc (tag_close cs))"

fun strip_tags :: "nat \<Rightarrow> string \<Rightarrow> string" where
  "strip_tags skip [] = []"
| "strip_tags skip (c # cs) =
     (if 0 < skip then strip_tags (skip - 1) cs
      else if c = CHR ''<'' then
        (case tag_close cs of
           Some k \<Rightarrow> strip_tags (k + 1) cs
         | None \<Rightarrow> c # strip_tags 0 cs)
      else c # strip_tags 0 cs)"

text \<open>
  The nested \<^verbatim>\<open>clean_text\<close>: remove the tags, remove every occurrence of the
  literal text \<^verbatim>\<open>/[^a-zA-Z0-9 ]\<close> (the argument of \<^verbatim>\<open>str.replace\<close> is not a
  pattern), strip white space at both ends.
\<close>

definition clean_text :: "string \<Rightarrow> string" where
  "clean_text txt =
     py_strip py_whitespace
       (py_remove_all ''/[^a-zA-Z0-9 ]'' 0 (strip_tags 0 txt))"

text \<open>\<^verbatim>\<open>[output_query] + query_history\<close> followed by \<^verbatim>\<open>query_list[:3]\<close>, or \<^verbatim>\<open>[output_query]\<close>.\<close>

definition new_history :: "string \<Rightarrow> string list option \<Rightarrow> string list" where
  "new_history output_query query_history =
     (if truthy query_history
      then take 3 ([output_query] @ the query_history)
      else [output_query])"

text \<open>
  \<^verbatim>\<open>refine_query\<close> on values. The order of the effects is the source's: the
  product image is fetched, then the log level is set, then the model is called.
\<close>

definition refine_query ::
  "env \<Rightarrow> string \<Rightarrow> string list option \<Rightarrow> product option \<Rightarrow> string
     \<Rightarrow> py_error + string \<times> string list" where
  "refine_query e input_text query_history product_arg log_level =
     (case build_content e input_text query_history product_arg of
        Inl err \<Rightarrow> Inl err
      | Inr blocks \<Rightarrow>
          (case level_of_name log_level of
             None \<Rightarrow> Inl ValueError
           | Some level \<Rightarrow>
               (case invoke_model e (refine_request blocks) of
                  Inl err \<Rightarrow> Inl err
                | Inr response_text \<Rightarrow>
                    (let output_query = clean_text response_text
                     in Inr (output_query, new_history output_query query_history)))))"


subsection \<open>The same function over a store of list objects\<close>

text \<open>
  A Python list is an object that a callee could change under its caller. To
  say that \<^verbatim>\<open>refine_query\<close> does not, the lists of strings live in a store:
  \<open>objects s ! a\<close> is the list at address \<open>a\<close>, a new list is appended at the
  first free address, and nothing is ever freed. The store also carries what
  the function writes outside its own frame, the configuration of the root
  logger (\<^verbatim>\<open>logging.basicConfig()\<close> and \<^verbatim>\<open>logging.getLogger().setLevel(level)\<close>).
\<close>

record store =
  objects :: "string list list"
  root_configured :: bool
  root_level :: nat

definition deref :: "store \<Rightarrow> nat \<Rightarrow> string list option" where
  "deref s a = (if a < length (objects s) then Some (objects s ! a) else None)"

text \<open>The value of the \<^verbatim>\<open>query_history\<close> argument: \<^verbatim>\<open>None\<close> or a reference to a list.\<close>

definition history_value :: "store \<Rightarrow> nat option \<Rightarrow> string list option" where
  "history_value s r = (case r of None \<Rightarrow> None | Some a \<Rightarrow> deref s a)"

definition alloc :: "store \<Rightarrow> string list \<Rightarrow> nat \<times> store" where
  "alloc s xs = (length (objects s), s\<lparr>objects := objects s @ [xs]\<rparr>)"

definition set_root_level :: "store \<Rightarrow> nat \<Rightarrow> store" where
  "set_root_level s level = s\<lparr>root_configured := True, root_level := level\<rparr>"

text \<open>
  The tail of the function: \<^verbatim>\<open>[output_query] + query_history\<close> builds a new list,
  the slice \<^verbatim>\<open>query_list[:3]\<close> builds another one, and the reference to the last
  one is returned.
\<close>

definition new_history_st :: "store \<Rightarrow> string \<Rightarrow> nat option \<Rightarrow> nat \<times> store" where
  "new_history_st s output_query r =
     (if truthy (history_value s r)
      then (let (a1, s1) = alloc s ([output_query] @ the (history_value s r))
            in alloc s1 (take 3 (the (deref s1 a1))))
      else alloc s [output_query])"

definition refine_query_st ::
  "env \<Rightarrow> store \<Rightarrow> string \<Rightarrow> nat option \<Rightarrow> product option \<Rightarrow> string
     \<Rightarrow> (py_error + string \<times> nat) \<times> store" where
  "refine_query_st e s input_text r product_arg log_level =
     (case build_content e input_text (history_value s r) product_arg of
        Inl err \<Rightarrow> (Inl err, s)
      | Inr blocks \<Rightarrow>
          (case level_of_name log_level of
             None \<Rightarrow> (Inl ValueError, s\<lparr>root_configured := True\<rparr>)
           | Some level \<Rightarrow>
               (let s1 = set_root_level s level
                in case invoke_model e (refine_request blocks) of
                     Inl err \<Rightarrow> (Inl err, s1)
                   | Inr response_text \<Rightarrow>
                       (let output_query = clean_text response_text;
                            (a, s2) = new_history_st s1 output_query r
                        in (Inr (output_query, a), s2)))))"

text \<open>What the caller sees of a result: the query and the contents of the returned list.\<close>

text \<open>A reference a caller can hold: \<^verbatim>\<open>None\<close>, or the address of an existing list.\<close>

definition valid_ref :: "store \<Rightarrow> nat option \<Rightarrow> bool" where
  "valid_ref s r = (case r of None \<Rightarrow> True | Some a \<Rightarrow> a < length (objects s))"

definition observe :: "(py_error + string \<times> nat) \<times> store \<Rightarrow> py_error + string \<times> string list option" where
  "observe res =
     (case fst res of
        Inl err \<Rightarrow> Inl err
      | Inr (q, a) \<Rightarrow> Inr (q, deref (snd res) a))"


section \<open>The catalog lookup: \<^verbatim>\<open>util/getinfo.py\<close>\<close>

text \<open>
  The identifier argument is any Python string: a list of Unicode code points.
  \<open>code_points\<close> reads a literal of the source as such a list.
\<close>

type_synonym py_str = "nat list"

definition code_points :: "string \<Rightarrow> py_str" where
  "code_points s = map of_char s"

text \<open>
  The pattern is a \<^verbatim>\<open>str\<close> and no flag is given, so the class \<^verbatim>\<open>\w\<close> is the
  Unicode one: a character is a word character when \<^verbatim>\<open>str.isalnum\<close> holds for
  it or it is the underscore, and \<^verbatim>\<open>\W\<close> is the complement. In ASCII the
  alphanumeric characters are the digits and the letters; beyond ASCII the
  Unicode character database decides, and that table is the parameter
  \<open>unicode_alnum\<close> (it is asked only about code points from 128 on).
\<close>

definition ascii_alnum :: "nat \<Rightarrow> bool" where
  "ascii_alnum k =
     ((48 \<le> k \<and> k \<le> 57) \<or> (65 \<le> k \<and> k \<le> 90) \<or> (97 \<le> k \<and> k \<le> 122))"

definition py_isalnum :: "(nat \<Rightarrow> bool) \<Rightarrow> nat \<Rightarrow> bool" where
  "py_isalnum unicode_alnum k = (if k < 128 then ascii_alnum k else unicode_alnum k)"

definition is_word_char :: "(nat \<Rightarrow> bool) \<Rightarrow> nat \<Rightarrow> bool" where
  "is_word_char unicode_alnum k = (py_isalnum unicode_alnum k \<or> k = 95)"

text \<open>
  \<^verbatim>\<open>re.sub(r'\W+', '', asin)\<close>: every maximal run of non-word characters is
  replaced by nothing.
\<close>

function sub_nonword :: "(nat \<Rightarrow> bool) \<Rightarrow> py_str \<Rightarrow> py_str" where
  "sub_nonword ua [] = []"
| "sub_nonword ua (c # cs) =
     (if is_word_char ua c then c # sub_nonword ua cs
      else sub_nonword ua (dropWhile (\<lambda>x. \<not> is_word_char ua x) cs))"
  by pat_completeness auto
termination
  by (relation "measure (\<lambda>(ua, s). length s)")
     (auto simp: length_dropWhile_le less_Suc_eq_le)

text \<open>
  The statement \<^verbatim>\<open>get_info_from_db\<close> sends to the database: the identifier is
  sanitised first and then placed between single quotes.
\<close>

definition get_info_query :: "(nat \<Rightarrow> bool) \<Rightarrow> py_str \<Rightarrow> py_str" where
  "get_info_query ua asin_arg =
     (let asin' = sub_nonword ua asin_arg
      in code_points ''SELECT asin, title, image FROM products WHERE asin='' @ [39] @
         asin' @ [39] @ code_points '';'')"


section \<open>A concrete world for running the functions\<close>

text \<open>
  \<^verbatim>\<open>ast.literal_eval\<close> on the decimal integer literals, with an optional minus
  sign: Python rejects a leading zero on a non-zero literal. This table is
  used only at such literals; the theorems below hold for every \<open>literal_eval\<close>.
\<close>

definition is_digit :: "char \<Rightarrow> bool" where
  "is_digit c = (48 \<le> (of_char c :: nat) \<and> (of_char c :: nat) \<le> 57)"

definition decimal_value :: "string \<Rightarrow> int" where
  "decimal_value ds = foldl (\<lambda>acc c. 10 * acc + (int (of_char c) - 48)) 0 ds"

definition decimal_literal :: "string \<Rightarrow> int option" where
  "decimal_literal ds =
     (if ds \<noteq> [] \<and> list_all is_digit ds \<and>
         (hd ds \<noteq> CHR ''0'' \<or> list_all (\<lambda>c. c = CHR ''0'') ds)
      then Some (decimal_value ds) else None)"

definition decimal_literal_eval :: "string \<Rightarrow> py_error + py_obj" where
  "decimal_literal_eval s =
     (case s of
        [] \<Rightarrow> Inl ValueError
      | c # cs \<Rightarrow>
          if c = CHR ''-''
          then (case decimal_literal cs of
                  None \<Rightarrow> Inl ValueError
                | Some n \<Rightarrow> Inr (IntObj (- n)))
          else (case decimal_literal s of
                  None \<Rightarrow> Inl ValueError
                | Some n \<Rightarrow> Inr (IntObj n)))"

text \<open>
  A world in which every URL can be fetched except those under
  \<^verbatim>\<open>http://down/\<close>, and the model answers \<open>answer\<close> to every request.
\<close>

definition demo_env :: "string \<Rightarrow> env" where
  "demo_env answer =
     \<lparr>open_image = (\<lambda>url. if startswith url ''http://down/'' then Inl RequestError else Inr ()),
      get_content = (\<lambda>url. if startswith url ''http://down/'' then Inl RequestError else Inr ''JFIF''),
      invoke_model = (\<lambda>req. Inr answer),
      literal_eval = decimal_literal_eval\<rparr>"

text \<open>
  The store of a fresh interpreter: no list yet, the root logger not
  configured and at its initial level \<^verbatim>\<open>WARNING\<close>.
\<close>

definition empty_store :: store where
  "empty_store = \<lparr>objects = [], root_configured = False, root_level = 30\<rparr>"

text \<open>
  \<^verbatim>\<open>str.isalnum\<close> on the code points \<open>U+0080\<close> to \<open>U+00FF\<close>: the ordinal
  indicators, the superscript digits, the micro sign, the vulgar fractions and
  the letters (all of \<open>U+00C0\<close> to \<open>U+00FF\<close> but the multiplication and the
  division sign). This table is used only at code points up to \<open>U+00FF\<close>; the
  theorems below hold for every table.
\<close>

definition latin1_alnum :: "nat \<Rightarrow> bool" where
  "latin1_alnum k =
     (k \<in> set [170, 178, 179, 181, 185, 186, 188, 189, 190] \<or>
      (192 \<le> k \<and> k \<le> 214) \<or> (216 \<le> k \<and> k \<le> 246) \<or> (248 \<le> k \<and> k \<le> 255))"


section \<open>Facts about the built-ins\<close>

lemma py_split_ne: "py_split sep s \<noteq> []"
  by (induction s) (auto split: list.splits)

lemma hd_py_split: "hd (py_split sep s) = takeWhile (\<lambda>c. c \<noteq> sep) s"
  by (induction s) (auto split: list.splits simp: py_split_ne)

lemma py_split_no_sep: "sep \<notin> set s \<Longrightarrow> py_split sep s = [s]"
  by (induction s) (auto split: list.splits)

lemma py_split_sep: "sep \<in> set s \<Longrightarrow> tl (py_split sep s) \<noteq> []"
  by (induction s) (auto split: list.splits simp: py_split_ne)

lemma last_py_split: "last (py_split sep s) = rev (takeWhile (\<lambda>c. c \<noteq> sep) (rev s))"
proof (induction s)
  case Nil
  show ?case by simp
next
  case (Cons c cs)
  show ?case
  proof (cases "c = sep")
    case True
    then show ?thesis
      using Cons.IH by (auto simp: py_split_ne takeWhile_append)
  next
    case False
    show ?thesis
    proof (cases "sep \<in> set cs")
      case True
      obtain w ws where ws: "py_split sep cs = w # ws"
        using py_split_ne [of sep cs] by (cases "py_split sep cs") auto
      with py_split_sep [OF True] have "ws \<noteq> []" by simp
      with ws False True Cons.IH show ?thesis
        by (auto simp: takeWhile_append)
    next
      case sepfree: False
      with False show ?thesis
        by (simp add: py_split_no_sep takeWhile_append)
    qed
  qed
qed

lemma py_index_first: "xs \<noteq> [] \<Longrightarrow> py_index xs 0 = Inr (hd xs)"
  by (cases xs) (auto simp: py_index_def)

lemma py_index_last: "xs \<noteq> [] \<Longrightarrow> py_index xs (- 1) = Inr (last xs)"
  by (cases xs rule: rev_cases) (auto simp: py_index_def nth_append)

lemma py_index_member: "py_index xs i = Inr x \<Longrightarrow> x \<in> set xs"
  by (auto simp: py_index_def split: if_splits)


section \<open>The identifier extractor\<close>

lemma asin_of_uri_eq:
  "asin_of_uri u = Inr (takeWhile (\<lambda>c. c \<noteq> CHR ''.'') (uri_basename u))"
  by (simp add: asin_of_uri_def py_index_last py_index_first py_split_ne hd_py_split
        last_py_split uri_basename_def)

lemma asin_loop_eq:
  "\<exists>ids. asin_loop rs acc = Inr (acc @ ids) \<and> length ids = length rs \<and>
         map asin_of_item rs = map Inr ids"
proof (induction rs arbitrary: acc)
  case Nil
  show ?case by simp
next
  case (Cons r rs)
  obtain a where a: "asin_of_item r = Inr a"
    by (simp add: asin_of_item_def asin_of_uri_eq)
  from Cons [of "acc @ [a]"] obtain ids where
    "asin_loop rs (acc @ [a]) = Inr ((acc @ [a]) @ ids)" "length ids = length rs"
    "map asin_of_item rs = map Inr ids" by blast
  with a have "asin_loop (r # rs) acc = Inr (acc @ (a # ids)) \<and>
     length (a # ids) = length (r # rs) \<and>
     map asin_of_item (r # rs) = map Inr (a # ids)" by simp
  then show ?case by blast
qed

text \<open>
  C2, as the code has it. \<^verbatim>\<open>get_asin_list\<close> returns for a list and for an absent
  argument: a list of \<open>L\<close> results gives exactly \<open>L\<close> identifiers, the \<open>i\<close>-th
  one extracted from the \<open>i\<close>-th result, so the empty list gives the empty
  sequence; an absent argument (\<^verbatim>\<open>None\<close>) gives \<^verbatim>\<open>None\<close>, not an empty sequence.
\<close>

theorem get_asin_list_shapes:
  "get_asin_list SearchNone = Inr None \<and>
   (\<exists>ids. get_asin_list (SearchList rs) = Inr (Some ids) \<and> length ids = length rs \<and>
          map asin_of_item rs = map Inr ids)"
  using asin_loop_eq [of rs "[]"] by auto

text \<open>
  C2 as stated fails: an absent argument does not give the empty sequence, and
  a single result that is not in a list does not give a one-element sequence.
  Both fall through to \<^verbatim>\<open>else: return None\<close>.
\<close>

theorem get_asin_list_shapes_counterexample:
  "get_asin_list SearchNone \<noteq> Inr (Some []) \<and>
   get_asin_list (SearchDict (item_at ''s3://bucket/kb/B000.txt'')) \<noteq> Inr (Some [''B000''])"
  by simp

text \<open>A string argument, the case the \<^verbatim>\<open>elif\<close> branch tests for, raises.\<close>

lemma get_asin_list_str: "get_asin_list (SearchStr s) = Inl TypeError"
  by simp

lemma strip_last_extension_split:
  assumes "CHR ''.'' \<notin> set b"
  shows "strip_last_extension (a @ CHR ''.'' # b) = a"
proof -
  have "dropWhile (\<lambda>c. c \<noteq> CHR ''.'') (rev b @ CHR ''.'' # rev a) = CHR ''.'' # rev a"
    using assms by (subst dropWhile_append2) auto
  then show ?thesis by (simp add: strip_last_extension_def)
qed

lemma stem_first_dot_iff:
  "strip_last_extension name = takeWhile (\<lambda>c. c \<noteq> CHR ''.'') name
     \<longleftrightarrow> count_list name CHR ''.'' \<le> 1"
proof (cases "CHR ''.'' \<in> set name")
  case False
  then have "takeWhile (\<lambda>c. c \<noteq> CHR ''.'') name = name"
    by auto
  moreover from False have "count_list name CHR ''.'' = 0"
    by (simp add: count_list_0_iff)
  ultimately show ?thesis
    using False by (simp only: strip_last_extension_def if_False) simp
next
  case True
  then obtain a b where ab: "name = a @ CHR ''.'' # b" "CHR ''.'' \<notin> set b"
    by (auto dest: split_list_last)
  have cnt: "count_list name CHR ''.'' = count_list a CHR ''.'' + 1"
    using ab by (simp add: count_list_0_iff)
  show ?thesis
  proof (cases "CHR ''.'' \<in> set a")
    case False
    then have "\<forall>x\<in>set a. x \<noteq> CHR ''.''" by auto
    then have "takeWhile (\<lambda>c. c \<noteq> CHR ''.'') name = a"
      using ab by (simp add: takeWhile_append)
    moreover from False have "count_list a CHR ''.'' = 0"
      by (simp add: count_list_0_iff)
    ultimately show ?thesis
      using ab cnt by (simp add: strip_last_extension_split)
  next
    case dot: True
    then have "\<not> (\<forall>x\<in>set a. x \<noteq> CHR ''.'')" by auto
    then have tw: "takeWhile (\<lambda>c. c \<noteq> CHR ''.'') name = takeWhile (\<lambda>c. c \<noteq> CHR ''.'') a"
      using ab by (auto simp: takeWhile_append)
    from dot have "takeWhile (\<lambda>c. c \<noteq> CHR ''.'') a \<noteq> a"
      by auto
    then have "a \<noteq> takeWhile (\<lambda>c. c \<noteq> CHR ''.'') a"
      by (rule not_sym)
    moreover from dot have "count_list a CHR ''.'' \<noteq> 0"
      by (simp add: count_list_0_iff)
    ultimately show ?thesis
      using ab cnt tw by (simp add: strip_last_extension_split)
  qed
qed

text \<open>
  C4, as the code has it. The identifier of a result is the last path component
  of its URI cut at the first dot, so every extension is dropped, not only the
  last one. It is the file name stem (last extension removed) exactly when the
  file name has at most one dot, which is the case for the documents the
  repository uploads as \<^verbatim>\<open><asin>.txt\<close>.
\<close>

theorem asin_is_first_dot_prefix:
  "asin_of_item item =
     Inr (takeWhile (\<lambda>c. c \<noteq> CHR ''.'') (uri_basename (uri (s3Location (location item))))) \<and>
   (asin_of_item item = Inr (filename_stem (uri (s3Location (location item))))
      \<longleftrightarrow> count_list (uri_basename (uri (s3Location (location item)))) CHR ''.'' \<le> 1)"
  using stem_first_dot_iff [of "uri_basename (uri (s3Location (location item)))"]
  by (auto simp: asin_of_item_def asin_of_uri_eq filename_stem_def)

text \<open>
  C4 as stated fails on a file name with two dots: the stem of \<^verbatim>\<open>B000.v2.txt\<close>
  is \<^verbatim>\<open>B000.v2\<close>, the code returns \<^verbatim>\<open>B000\<close>.
\<close>

theorem asin_last_extension_counterexample:
  "asin_of_item (item_at ''s3://bucket/kb/B000.v2.txt'') = Inr ''B000'' \<and>
   filename_stem ''s3://bucket/kb/B000.v2.txt'' = ''B000.v2''"
  by (simp add: asin_of_item_def asin_of_uri_eq item_at_def filename_stem_def
        uri_basename_def strip_last_extension_def)


section \<open>The image filter\<close>

lemma filter_loop_eq: "filter_loop e urls images = images @ filter (fetch_ok e) urls"
  by (induction urls arbitrary: images) (auto simp: fetch_ok_def split: sum.splits)

lemma filter_image_url_Some:
  "filter_image_url e urls = Some ys \<longleftrightarrow> ys = filter (fetch_ok e) urls \<and> ys \<noteq> []"
  by (auto simp: filter_image_url_def filter_loop_eq Let_def split: if_splits)

text \<open>
  C6. \<^verbatim>\<open>filter_image_url\<close> returns the URLs whose fetch-and-open succeeds, in
  their input order: the whole list is always traversed, a failing URL is
  skipped, the function has no error result, and it returns \<^verbatim>\<open>None\<close> when no
  URL survives.
\<close>

theorem filter_image_url_subsequence:
  "filter_image_url e urls =
     (if filter (fetch_ok e) urls = [] then None else Some (filter (fetch_ok e) urls))"
  by (simp add: filter_image_url_def filter_loop_eq)

text \<open>
  C7. Filtering the output of the filter again returns the same list, the
  URLs answering the second pass as they answered the first.
\<close>

theorem filter_image_url_idempotent:
  "filter_image_url e urls = Some ys \<Longrightarrow> filter_image_url e ys = Some ys"
  by (auto simp: filter_image_url_Some)


lemmas demo_simps = demo_env_def filter_image_url_def url_image_processing_def
  get_base64_from_bytes_def b64_digit_def b64_alphabet_def
  decimal_literal_eval_def decimal_literal_def decimal_value_def is_digit_def
  parse_answer_def pick_answer_def py_index_def py_strip_def py_lstrip_def py_rstrip_def

theorem filter_image_url_idempotent_witness:
  "filter_image_url (demo_env ''[1]'')
     [''http://img/A.jpg'', ''http://down/B.jpg'', ''http://img/C.jpg'']
     = Some [''http://img/A.jpg'', ''http://img/C.jpg''] \<and>
   filter_image_url (demo_env ''[1]'') [''http://img/A.jpg'', ''http://img/C.jpg'']
     = Some [''http://img/A.jpg'', ''http://img/C.jpg'']"
proof -
  have h: "filter_image_url (demo_env ''[1]'')
     [''http://img/A.jpg'', ''http://down/B.jpg'', ''http://img/C.jpg'']
     = Some [''http://img/A.jpg'', ''http://img/C.jpg'']"
    by (simp add: demo_simps)
  from filter_image_url_idempotent [OF h] h show ?thesis by simp
qed


section \<open>The image picker\<close>

lemma pick_answer_member: "pick_answer answer imgs = Inr (Some u) \<Longrightarrow> u \<in> set imgs"
  by (auto simp: pick_answer_def split: option.splits if_splits sum.splits
        dest: py_index_member)

text \<open>
  The answer that names the last image is turned down, whatever the number of
  surviving images: the guard is \<^verbatim>\<open>answer < len(img_list)\<close>.
\<close>

lemma pick_answer_length: "pick_answer (IntObj (int (length imgs))) imgs = Inr None"
  by (simp add: pick_answer_def)

text \<open>
  C1. The claim is that an answer \<open>i\<close> with \<open>1 \<le> i \<le> n\<close> selects the \<open>i\<close>-th
  surviving URL and that every other answer gives \<^verbatim>\<open>None\<close> without an error.
  With three surviving URLs the code returns \<^verbatim>\<open>None\<close> for the answer \<^verbatim>\<open>[3]\<close>,
  and raises \<^verbatim>\<open>IndexError\<close> for the answer \<^verbatim>\<open>[-3]\<close>.
\<close>

theorem pick_img_rejects_last_index:
  "pick_img (demo_env ''[3]'') ''running shoes''
     [''http://img/A.jpg'', ''http://img/B.jpg'', ''http://img/C.jpg''] = Inr None \<and>
   pick_img (demo_env ''[-3]'') ''running shoes''
     [''http://img/A.jpg'', ''http://img/B.jpg'', ''http://img/C.jpg''] = Inl IndexError"
  by (simp add: pick_img_def demo_simps)

text \<open>The two examples of the design document do hold.\<close>

lemma pick_img_examples:
  "pick_img (demo_env ''[2]'') ''running shoes''
     [''http://img/A.jpg'', ''http://img/B.jpg'', ''http://img/C.jpg'']
     = Inr (Some ''http://img/B.jpg'') \<and>
   pick_img (demo_env ''[5]'') ''running shoes''
     [''http://img/A.jpg'', ''http://img/B.jpg'', ''http://img/C.jpg''] = Inr None"
  by (simp add: pick_img_def demo_simps)

text \<open>
  C5. A URL returned by \<^verbatim>\<open>pick_img\<close> is one of the URLs that survived the
  filter, and so one of the candidates, whatever the model answered and
  whatever \<^verbatim>\<open>ast.literal_eval\<close> made of the answer.
\<close>

theorem pick_img_member:
  "pick_img e t urls = Inr (Some u) \<Longrightarrow>
   \<exists>imgs. filter_image_url e urls = Some imgs \<and> u \<in> set imgs \<and> u \<in> set urls"
  by (auto simp: pick_img_def filter_image_url_Some split: option.splits sum.splits
        dest!: pick_answer_member)

theorem pick_img_member_witness:
  "pick_img (demo_env ''[2]'') ''running shoes''
     [''http://img/A.jpg'', ''http://down/X.jpg'', ''http://img/B.jpg'', ''http://img/C.jpg'']
     = Inr (Some ''http://img/B.jpg'') \<and>
   (\<exists>imgs. filter_image_url (demo_env ''[2]'')
       [''http://img/A.jpg'', ''http://down/X.jpg'', ''http://img/B.jpg'', ''http://img/C.jpg'']
       = Some imgs \<and> ''http://img/B.jpg'' \<in> set imgs)"
proof -
  have h: "pick_img (demo_env ''[2]'') ''running shoes''
     [''http://img/A.jpg'', ''http://down/X.jpg'', ''http://img/B.jpg'', ''http://img/C.jpg'']
     = Inr (Some ''http://img/B.jpg'')"
    by (simp add: pick_img_def demo_simps)
  from pick_img_member [OF h] h show ?thesis by blast
qed

lemma strip_brackets_0: "py_strip ''[]'' ''[0]'' = ''0''"
  by (simp add: py_strip_def py_lstrip_def py_rstrip_def)

text \<open>
  C10. When at least one URL survives the filter, the images are fetched and
  the model answers exactly \<^verbatim>\<open>[0]\<close>, which \<^verbatim>\<open>ast.literal_eval\<close> reads as the
  integer 0 once the brackets are stripped, \<^verbatim>\<open>pick_img\<close> returns the last
  surviving URL: 0 passes the guard and \<^verbatim>\<open>img_list[-1]\<close> is the last element.
\<close>

theorem pick_img_zero_returns_last:
  assumes "filter_image_url e urls = Some imgs"
    and "encode_loop e imgs [TextBlock t] = Inr blocks"
    and "invoke_model e (pick_request blocks) = Inr ''[0]''"
    and "literal_eval e ''0'' = Inr (IntObj 0)"
  shows "pick_img e t urls = Inr (Some (last imgs))"
proof -
  from assms(1) have ne: "imgs \<noteq> []"
    by (auto simp: filter_image_url_Some)
  have "parse_answer e ''[0]'' = IntObj 0"
    using assms(4) by (simp add: parse_answer_def strip_brackets_0)
  moreover have "pick_answer (IntObj 0) imgs = Inr (Some (last imgs))"
    using ne by (simp add: pick_answer_def py_index_last)
  ultimately show ?thesis
    using assms(1-3) by (simp add: pick_img_def)
qed

theorem pick_img_zero_returns_last_witness:
  "pick_img (demo_env ''[0]'') ''running shoes''
     [''http://img/A.jpg'', ''http://down/X.jpg'', ''http://img/B.jpg'', ''http://img/C.jpg'']
     = Inr (Some ''http://img/C.jpg'')"
proof -
  let ?e = "demo_env ''[0]''"
  let ?imgs = "[''http://img/A.jpg'', ''http://img/B.jpg'', ''http://img/C.jpg'']"
  let ?blocks = "[TextBlock ''running shoes'', ImageBlock ''image/jpeg'' ''SkZJRg=='',
                  ImageBlock ''image/jpeg'' ''SkZJRg=='', ImageBlock ''image/jpeg'' ''SkZJRg=='']"
  have h1: "filter_image_url ?e
     [''http://img/A.jpg'', ''http://down/X.jpg'', ''http://img/B.jpg'', ''http://img/C.jpg'']
     = Some ?imgs"
    by (simp add: demo_simps)
  have h2: "encode_loop ?e ?imgs [TextBlock ''running shoes''] = Inr ?blocks"
    by (simp add: demo_simps)
  have h3: "invoke_model ?e (pick_request ?blocks) = Inr ''[0]''"
    by (simp add: demo_env_def)
  have h4: "literal_eval ?e ''0'' = Inr (IntObj 0)"
    by (simp add: demo_simps)
  from pick_img_zero_returns_last [OF h1 h2 h3 h4] show ?thesis by simp
qed


section \<open>The query refiner\<close>

lemma new_history_props:
  "length (new_history q h) \<le> 3 \<and> new_history q h \<noteq> [] \<and> hd (new_history q h) = q"
  by (simp add: new_history_def)

text \<open>The function returns whenever its three outside calls do.\<close>

lemma refine_query_returns:
  "build_content e t h p = Inr blocks \<Longrightarrow> level_of_name lvl = Some l \<Longrightarrow>
   invoke_model e (refine_request blocks) = Inr r \<Longrightarrow>
   refine_query e t h p lvl = Inr (clean_text r, new_history (clean_text r) h)"
  by (simp add: refine_query_def Let_def)

lemma build_content_total:
  "build_content e t h None = Inr (history_loop 0 (case h of None \<Rightarrow> [] | Some xs \<Rightarrow> xs)
      [TextBlock (''CURRENT USER QUERY: '' @ t)])"
  by (simp add: build_content_def split: option.splits)

lemma clean_text_example: "clean_text '' <b>red shirt</b> '' = ''red shirt''"
  by (simp add: clean_text_def py_strip_def py_lstrip_def py_rstrip_def py_whitespace_def)

text \<open>
  C3. For every user text, every history (absent, empty or of any length) and
  every product, a result \<open>(q, h')\<close> of \<^verbatim>\<open>refine_query\<close> has a history \<open>h'\<close> of
  at most three entries whose first entry is \<open>q\<close>, and \<open>q\<close> is the cleaned
  response of the model; \<open>h'\<close> is \<open>q\<close> followed by the old history, cut to
  three entries.
\<close>

theorem refine_query_history_bound:
  "refine_query e t h p lvl = Inr (q, h') \<Longrightarrow>
     length h' \<le> 3 \<and> h' \<noteq> [] \<and> hd h' = q \<and>
     h' = take 3 (q # (case h of None \<Rightarrow> [] | Some xs \<Rightarrow> xs)) \<and>
     (\<exists>blocks r. invoke_model e (refine_request blocks) = Inr r \<and> q = clean_text r)"
  by (auto simp: refine_query_def Let_def new_history_def
        split: sum.splits option.splits if_splits)

theorem refine_query_history_bound_witness:
  "refine_query (demo_env '' <b>red shirt</b> '') ''I want shirts for men.''
      (Some [''blue shirt'', ''sports wear'', ''shoes'', ''hats'']) None ''ERROR''
     = Inr (''red shirt'', [''red shirt'', ''blue shirt'', ''sports wear'']) \<and>
   length [''red shirt'', ''blue shirt'', ''sports wear''] \<le> 3 \<and>
   hd [''red shirt'', ''blue shirt'', ''sports wear''] = ''red shirt''"
proof -
  have h: "refine_query (demo_env '' <b>red shirt</b> '') ''I want shirts for men.''
      (Some [''blue shirt'', ''sports wear'', ''shoes'', ''hats'']) None ''ERROR''
     = Inr (''red shirt'', [''red shirt'', ''blue shirt'', ''sports wear''])"
    by (simp add: refine_query_def build_content_def level_of_name_def demo_env_def
          clean_text_example new_history_def Let_def)
  from refine_query_history_bound [OF h] h show ?thesis by simp
qed

lemma new_history_st_props:
  assumes "new_history_st s q r = (a, s')"
  shows "take (length (objects s)) (objects s') = objects s"
    and "length (objects s) \<le> a" and "a < length (objects s')"
    and "deref s' a = Some (new_history q (history_value s r))"
  using assms
  by (auto simp: new_history_st_def new_history_def alloc_def deref_def Let_def nth_append
        split: if_splits prod.splits)

lemma history_value_prefix:
  assumes p: "take (length (objects s)) (objects s') = objects s" and v: "valid_ref s r"
  shows "history_value s' r = history_value s r"
proof (cases r)
  case None
  then show ?thesis by (simp add: history_value_def)
next
  case (Some a)
  from v Some have a: "a < length (objects s)"
    by (simp add: valid_ref_def)
  from p have le: "length (objects s) \<le> length (objects s')"
    by (metis length_take min.cobounded1)
  from p a have "objects s' ! a = objects s ! a"
    by (metis nth_take)
  with a le Some show ?thesis
    by (simp add: history_value_def deref_def)
qed

lemma refine_query_st_frame:
  assumes "refine_query_st e s t r p lvl = (res, s')"
  shows "take (length (objects s)) (objects s') = objects s"
  using assms
  by (auto simp: refine_query_st_def set_root_level_def Let_def
        split: sum.splits option.splits prod.splits dest: new_history_st_props(1))

lemma refine_query_st_fresh:
  assumes "refine_query_st e s t r p lvl = (Inr (q, a), s')"
  shows "length (objects s) \<le> a \<and> a < length (objects s')"
  using assms
  by (auto simp: refine_query_st_def set_root_level_def Let_def
        split: sum.splits option.splits prod.splits
        dest: new_history_st_props(2) new_history_st_props(3))

lemma history_value_set_root_level:
  "history_value (set_root_level s l) r = history_value s r"
  by (simp add: history_value_def set_root_level_def deref_def split: option.splits)

text \<open>
  The store version computes what the value version computes: the outcome is
  a function of the values of the arguments and of the outside world, and of
  nothing else the store holds.
\<close>

lemma refine_query_st_observe:
  "observe (refine_query_st e s t r p lvl) =
     map_sum id (map_prod id Some) (refine_query e t (history_value s r) p lvl)"
  by (auto simp: observe_def refine_query_st_def refine_query_def Let_def
          history_value_set_root_level
        split: sum.splits option.splits prod.splits
        dest: new_history_st_props(4))

text \<open>
  What a call leaves in the root logger. When the content cannot be built the
  call ends before the logging lines and the store is as it was. Otherwise
  \<^verbatim>\<open>logging.basicConfig()\<close> has run, and \<^verbatim>\<open>setLevel\<close> has set the level named by
  \<^verbatim>\<open>log_level\<close>, unless the name is unknown and \<^verbatim>\<open>setLevel\<close> raised.
\<close>

lemma refine_query_st_logger:
  assumes "refine_query_st e s t r p lvl = (res, s')"
  shows "case build_content e t (history_value s r) p of
           Inl err \<Rightarrow> s' = s
         | Inr blocks \<Rightarrow>
             root_configured s' \<and>
             root_level s' = (case level_of_name lvl of None \<Rightarrow> root_level s | Some l \<Rightarrow> l)"
  using assms
  by (auto simp: refine_query_st_def set_root_level_def Let_def new_history_st_def alloc_def
        split: sum.splits option.splits prod.splits if_splits)

text \<open>
  C9, as the code has it. A call of \<^verbatim>\<open>refine_query\<close> leaves every list that
  existed before the call as it was, the history passed in among them; the
  history it returns is a list created by the call, at an address that was
  free before; and the query and history returned are determined by the
  values of the arguments and the answers of the outside world, so nothing an
  earlier call left behind reaches the result of a later call. The call does
  write state that outlives it: once the content is built it configures the
  process-wide root logger and sets its level to the one named by its
  \<^verbatim>\<open>log_level\<close> argument (\<^verbatim>\<open>ERROR\<close>, 40, by default), and that setting stays
  after the call returns or raises.
\<close>

theorem refine_query_st_preserves_inputs:
  assumes "refine_query_st e s t r p lvl = (res, s')" and "valid_ref s r"
  shows "take (length (objects s)) (objects s') = objects s \<and>
         history_value s' r = history_value s r \<and>
         (case res of
            Inl err \<Rightarrow> True
          | Inr (q, a) \<Rightarrow> length (objects s) \<le> a \<and> a < length (objects s')) \<and>
         observe (res, s') =
           map_sum id (map_prod id Some) (refine_query e t (history_value s r) p lvl) \<and>
         (case build_content e t (history_value s r) p of
            Inl err \<Rightarrow> s' = s
          | Inr blocks \<Rightarrow>
              root_configured s' \<and>
              root_level s' =
                (case level_of_name lvl of None \<Rightarrow> root_level s | Some l \<Rightarrow> l))"
proof -
  have f: "take (length (objects s)) (objects s') = objects s"
    using assms(1) by (rule refine_query_st_frame)
  have h: "history_value s' r = history_value s r"
    using f assms(2) by (rule history_value_prefix)
  have fr: "case res of
              Inl err \<Rightarrow> True
            | Inr (q, a) \<Rightarrow> length (objects s) \<le> a \<and> a < length (objects s')"
    using assms(1) by (auto split: sum.splits dest: refine_query_st_fresh)
  have ob: "observe (res, s') =
           map_sum id (map_prod id Some) (refine_query e t (history_value s r) p lvl)"
    using refine_query_st_observe [of e s t r p lvl] assms(1) by simp
  have lg: "case build_content e t (history_value s r) p of
              Inl err \<Rightarrow> s' = s
            | Inr blocks \<Rightarrow>
                root_configured s' \<and>
                root_level s' =
                  (case level_of_name lvl of None \<Rightarrow> root_level s | Some l \<Rightarrow> l)"
    using assms(1) by (rule refine_query_st_logger)
  from f h fr ob lg show ?thesis by blast
qed

theorem refine_query_st_preserves_inputs_witness:
  "refine_query_st (demo_env '' <b>red shirt</b> '')
      (empty_store\<lparr>objects := [[''blue shirt'', ''sports wear'', ''shoes'']]\<rparr>)
      ''I want shirts for men.'' (Some 0) None ''ERROR''
     = (Inr (''red shirt'', 2),
        \<lparr>objects = [[''blue shirt'', ''sports wear'', ''shoes''],
                    [''red shirt'', ''blue shirt'', ''sports wear'', ''shoes''],
                    [''red shirt'', ''blue shirt'', ''sports wear'']],
         root_configured = True, root_level = 40\<rparr>) \<and>
   history_value
       \<lparr>objects = [[''blue shirt'', ''sports wear'', ''shoes''],
                   [''red shirt'', ''blue shirt'', ''sports wear'', ''shoes''],
                   [''red shirt'', ''blue shirt'', ''sports wear'']],
        root_configured = True, root_level = 40\<rparr> (Some 0)
     = Some [''blue shirt'', ''sports wear'', ''shoes'']"
proof -
  let ?s = "empty_store\<lparr>objects := [[''blue shirt'', ''sports wear'', ''shoes'']]\<rparr>"
  have h: "refine_query_st (demo_env '' <b>red shirt</b> '') ?s
      ''I want shirts for men.'' (Some 0) None ''ERROR''
     = (Inr (''red shirt'', 2),
        \<lparr>objects = [[''blue shirt'', ''sports wear'', ''shoes''],
                    [''red shirt'', ''blue shirt'', ''sports wear'', ''shoes''],
                    [''red shirt'', ''blue shirt'', ''sports wear'']],
         root_configured = True, root_level = 40\<rparr>)"
    by (simp add: refine_query_st_def build_content_def level_of_name_def demo_env_def
          clean_text_example new_history_st_def history_value_def deref_def alloc_def
          set_root_level_def empty_store_def Let_def)
  have v: "valid_ref ?s (Some 0)"
    by (simp add: valid_ref_def empty_store_def)
  have hv: "history_value ?s (Some 0) = Some [''blue shirt'', ''sports wear'', ''shoes'']"
    by (simp add: history_value_def deref_def empty_store_def)
  from refine_query_st_preserves_inputs [OF h v] h hv show ?thesis by simp
qed

text \<open>
  C9 as stated fails in its last part: a call does leave state behind. In a
  fresh interpreter the root logger is not configured and at level 30; after
  one call with \<^verbatim>\<open>log_level='DEBUG'\<close> it is configured and at level 10, and a
  call with the default level leaves it at 40.
\<close>

theorem refine_query_st_logger_persists:
  "\<not> root_configured empty_store \<and> root_level empty_store = 30 \<and>
   root_configured
     (snd (refine_query_st (demo_env ''red shirt'') empty_store
             ''I want shirts for men.'' None None ''DEBUG'')) \<and>
   root_level
     (snd (refine_query_st (demo_env ''red shirt'') empty_store
             ''I want shirts for men.'' None None ''DEBUG'')) = 10 \<and>
   root_level
     (snd (refine_query_st (demo_env ''red shirt'') empty_store
             ''I want shirts for men.'' None None ''ERROR'')) = 40 \<and>
   snd (refine_query_st (demo_env ''red shirt'') empty_store
          ''I want shirts for men.'' None None ''ERROR'')
     \<noteq> empty_store\<lparr>objects :=
           objects (snd (refine_query_st (demo_env ''red shirt'') empty_store
                           ''I want shirts for men.'' None None ''ERROR''))\<rparr>"
  by (simp add: refine_query_st_def build_content_def level_of_name_def demo_env_def
        new_history_st_def history_value_def alloc_def set_root_level_def
        empty_store_def Let_def)


section \<open>The catalog lookup\<close>

lemma filter_dropWhile_not: "filter P (dropWhile (\<lambda>x. \<not> P x) xs) = filter P xs"
  by (induction xs) auto

lemma sub_nonword_filter: "sub_nonword ua s = filter (is_word_char ua) s"
  by (induction ua s rule: sub_nonword.induct) (auto simp: filter_dropWhile_not)

text \<open>
  C8, as the code has it. For every identifier, whatever its characters, the
  identifier placed in the statement is the input without its non-word
  characters: what stays, in order, are the characters Python classes as
  alphanumeric (non-ASCII letters and digits among them) and the underscore.
\<close>

theorem sanitized_asin_word_chars:
  "sub_nonword ua a = filter (is_word_char ua) a \<and>
   list_all (is_word_char ua) (sub_nonword ua a) \<and>
   get_info_query ua a =
     code_points ''SELECT asin, title, image FROM products WHERE asin='' @ [39] @
     filter (is_word_char ua) a @ [39] @ code_points '';''"
  by (simp add: sub_nonword_filter get_info_query_def list_all_iff)

text \<open>
  C8 as stated fails on an underscore: \<^verbatim>\<open>_\<close> is a word character, so it is
  kept, and the identifier used is not made of alphanumeric characters only.
\<close>

theorem sanitized_asin_keeps_underscore:
  "sub_nonword latin1_alnum (code_points ''B0_1-2'') = code_points ''B0_12'' \<and>
   \<not> list_all (py_isalnum latin1_alnum) (sub_nonword latin1_alnum (code_points ''B0_1-2'')) \<and>
   sub_nonword latin1_alnum (code_points ''B0_1-2'') \<noteq>
     filter (py_isalnum latin1_alnum) (code_points ''B0_1-2'')"
  by (simp add: sub_nonword_filter is_word_char_def py_isalnum_def ascii_alnum_def
        code_points_def)

text \<open>
  A non-ASCII letter is a word character and stays: \<^verbatim>\<open>B\<close>, \<open>U+00E9\<close>, \<^verbatim>\<open>_1-2\<close>
  loses its hyphen only. The multiplication sign \<open>U+00D7\<close> is removed.
\<close>

lemma sub_nonword_latin1_examples:
  "sub_nonword latin1_alnum [66, 233, 95, 49, 45, 50] = [66, 233, 95, 49, 50] \<and>
   sub_nonword latin1_alnum [66, 215, 49] = [66, 49]"
  by (simp add: sub_nonword_filter is_word_char_def py_isalnum_def ascii_alnum_def
        latin1_alnum_def)

end
